theory Spec2Isabelle
  imports Complex_Main "HOL-Library.AList"
begin

section \<open>Errors\<close>

text \<open>
  Every exception of \<^verbatim>\<open>xbrl.py\<close> that a modelled path can raise is a value.
  \<open>XBRLException\<close> and \<open>Exception\<close> carry the message the source gives them:
  \<^verbatim>\<open>XBRLException('value extraction error')\<close> is the error the specification calls
  ValueExtractionError, \<^verbatim>\<open>Exception("no context id matched")\<close> the one it calls
  NoContextMatchError. \<open>KeyError\<close> carries the missing key, \<open>ValueError\<close> the
  rejected literal or the message; \<open>IndexError\<close>, \<open>TypeError\<close>,
  \<open>AttributeError\<close> and \<open>OverflowError\<close> are raised by the Python runtime (an
  index into an empty list, an operator between operands that do not support it, an
  attribute of \<open>None\<close>, a date or duration outside the range of its type).
\<close>

datatype error =
    IndexError
  | TypeError
  | AttributeError
  | OverflowError
  | KeyError string
  | ValueError string
  | XBRLException string
  | Exception string

section \<open>The markup repair preprocessor: \<^verbatim>\<open>XBRLPreprocessedFile.__init__\<close>\<close>

text \<open>
  The stream is a \<open>string\<close>. A \<open>char\<close> is one of 256 characters, read as Latin-1;
  on these the class \<^verbatim>\<open>(?i)[a-z0-9_\.]\<close> is the ASCII letters of both cases, the
  digits, the underscore and the dot.
\<close>

definition name_char :: "char \<Rightarrow> bool" where
  "name_char c =
     (c \<in> set ''abcdefghijklmnopqrstuvwxyzABCDEFGHIJKLMNOPQRSTUVWXYZ0123456789_.'')"

definition startswith :: "string \<Rightarrow> string \<Rightarrow> bool" where
  "startswith s p = (take (length p) s = p)"

text \<open>
  \<^verbatim>\<open>[a-z0-9_\.]+>\<close> at the start of \<open>s\<close>: the longest run of name characters, which
  must not be empty, then \<open>>\<close>. The run is greedy and \<open>>\<close> is no name character, so no
  shorter run can match. The result is the run and what follows the \<open>>\<close>.
\<close>

definition match_name_gt :: "string \<Rightarrow> (string \<times> string) option" where
  "match_name_gt s =
     (let nm = takeWhile name_char s; r = dropWhile name_char s
      in if nm \<noteq> [] \<and> startswith r ''>'' then Some (nm, tl r) else None)"

text \<open>
  \<^verbatim>\<open>(?i)(</?[a-z0-9_\.]+>)\<close> at the start of \<open>s\<close>, the delimiter of \<^verbatim>\<open>re.split\<close>
  (line 720): the matched tag and the rest. The optional slash is taken when it is there;
  without it the next character would have to be a name character, and a slash is none.
\<close>

definition match_tag :: "string \<Rightarrow> (string \<times> string) option" where
  "match_tag s =
     (if startswith s ''</'' then
        (case match_name_gt (drop 2 s) of
           Some (nm, rest) \<Rightarrow> Some (''</'' @ nm @ ''>'', rest)
         | None \<Rightarrow> None)
      else if startswith s ''<'' then
        (case match_name_gt (drop 1 s) of
           Some (nm, rest) \<Rightarrow> Some (''<'' @ nm @ ''>'', rest)
         | None \<Rightarrow> None)
      else None)"

text \<open>
  \<^verbatim>\<open>(?i)</([a-z0-9_\.]+)>\<close> at the start of \<open>s\<close>, the pattern of the first pass
  (line 714): the captured name and the rest.
\<close>

definition match_close :: "string \<Rightarrow> (string \<times> string) option" where
  "match_close s =
     (if startswith s ''</'' then match_name_gt (drop 2 s) else None)"

lemma match_name_gt_shorter:
  assumes "match_name_gt s = Some (nm, r)"
  shows "length r < length s"
proof -
  from assms have r: "r = tl (dropWhile name_char s)"
    and hd: "take 1 (dropWhile name_char s) = ''>''"
    by (auto simp: match_name_gt_def Let_def startswith_def split: if_splits)
  from hd have ne: "dropWhile name_char s \<noteq> []"
    by (cases "dropWhile name_char s") auto
  have "length (dropWhile name_char s) \<le> length s"
    by (rule length_dropWhile_le)
  with ne show ?thesis
    unfolding r by (cases "dropWhile name_char s") auto
qed

lemma match_tag_shorter:
  assumes "match_tag s = Some (t, r)"
  shows "length r < length s"
  using assms
  by (auto simp: match_tag_def split: if_splits option.splits dest!: match_name_gt_shorter)

lemma match_close_shorter:
  assumes "match_close s = Some (t, r)"
  shows "length r < length s"
  using assms
  by (auto simp: match_close_def split: if_splits dest!: match_name_gt_shorter)

text \<open>
  \<^verbatim>\<open>re.split\<close> with one capturing group (line 720): the text before each match, the
  match, and at the end the text after the last match; the scan resumes behind a match.
  \<open>cur\<close> is the text read since the last match.
\<close>

function re_split_from :: "string \<Rightarrow> string \<Rightarrow> string list" where
  "re_split_from cur s =
     (case match_tag s of
        Some (tag, rest) \<Rightarrow> cur # tag # re_split_from [] rest
      | None \<Rightarrow> (case s of [] \<Rightarrow> [cur] | c # cs \<Rightarrow> re_split_from (cur @ [c]) cs))"
  by pat_completeness auto
termination
  by (relation "measure (\<lambda>(cur, s). length s)") (auto dest: match_tag_shorter)

declare re_split_from.simps [simp del]

definition re_split :: "string \<Rightarrow> string list" where
  "re_split s = re_split_from [] s"

text \<open>\<^verbatim>\<open>re.findall\<close> of the closing-tag pattern (line 714): the captured names, in order.\<close>

function findall_closing :: "string \<Rightarrow> string list" where
  "findall_closing s =
     (case match_close s of
        Some (nm, rest) \<Rightarrow> nm # findall_closing rest
      | None \<Rightarrow> (case s of [] \<Rightarrow> [] | c # cs \<Rightarrow> findall_closing cs))"
  by pat_completeness auto
termination
  by (relation "measure length") (auto dest: match_close_shorter)

declare findall_closing.simps [simp del]

text \<open>
  \<^verbatim>\<open>str.upper\<close> on the strings the preprocessor applies it to: captured names (name
  characters only) and matches of \<^verbatim>\<open><*>\<close> (the characters \<open><\<close> and \<open>>\<close> only).
  On these it changes the 26 lower-case ASCII letters and nothing else.
\<close>

definition upper_char :: "char \<Rightarrow> char" where
  "upper_char c =
     (case map_of (zip ''abcdefghijklmnopqrstuvwxyz'' ''ABCDEFGHIJKLMNOPQRSTUVWXYZ'') c of
        Some u \<Rightarrow> u
      | None \<Rightarrow> c)"

definition upper :: "string \<Rightarrow> string" where
  "upper s = map upper_char s"

text \<open>
  \<^verbatim>\<open>(?i)<*>\<close> at the start of \<open>s\<close> (line 734): every \<open><\<close> that stands there, then
  \<open>>\<close>. A shorter run of \<open><\<close> would be followed by \<open><\<close>, not by \<open>>\<close>.
\<close>

definition match_lts_gt :: "string \<Rightarrow> string option" where
  "match_lts_gt s =
     (if startswith (dropWhile (\<lambda>c. c = CHR ''<'') s) ''>''
      then Some (takeWhile (\<lambda>c. c = CHR ''<'') s @ ''>'')
      else None)"

text \<open>
  \<^verbatim>\<open>re.findall(r'(?i)<*>', token)[0]\<close>: the leftmost match, or \<open>None\<close> when the list
  is empty and the index raises \<open>IndexError\<close>.
\<close>

fun first_lts_gt :: "string \<Rightarrow> string option" where
  "first_lts_gt [] = None"
| "first_lts_gt (c # cs) =
     (case match_lts_gt (c # cs) of
        Some m \<Rightarrow> Some m
      | None \<Rightarrow> first_lts_gt cs)"

text \<open>
  What the loop writes to \<^verbatim>\<open>new_fh\<close>: \<open>Token\<close> is the write of line 737 (the token
  itself), \<open>Closer\<close> the write of line 731 (\<^verbatim>\<open>"</%s>" % last_open_tag\<close>). The state of
  the loop is the pending tag and the writes so far.
\<close>

datatype emitted = Token string | Closer string

record pstate =
  last_open_tag :: "string option"
  new_fh :: "emitted list"

definition process_token :: "string list \<Rightarrow> pstate \<Rightarrow> string \<Rightarrow> error + pstate" where
  "process_token closing_tags st token =
     (let is_closing_tag = startswith token ''</'';
          is_processing_tag = startswith token ''<?'';
          is_cdata = startswith token ''<!'';
          is_tag = (startswith token ''<'' \<and> \<not> is_cdata);
          is_open_tag = (is_tag \<and> \<not> is_closing_tag \<and> \<not> is_processing_tag);
          st1 = (if is_tag then
                   (case last_open_tag st of
                      Some t \<Rightarrow> st\<lparr>new_fh := new_fh st @ [Closer (''</'' @ t @ ''>'')],
                                   last_open_tag := None\<rparr>
                    | None \<Rightarrow> st)
                 else st)
      in if is_open_tag then
           (case first_lts_gt token of
              None \<Rightarrow> Inl IndexError
            | Some tag_name \<Rightarrow>
                let st2 = (if upper tag_name \<notin> set closing_tags
                           then st1\<lparr>last_open_tag := Some tag_name\<rparr> else st1)
                in Inr (st2\<lparr>new_fh := new_fh st2 @ [Token token]\<rparr>))
         else Inr (st1\<lparr>new_fh := new_fh st1 @ [Token token]\<rparr>))"

fun token_loop :: "string list \<Rightarrow> pstate \<Rightarrow> string list \<Rightarrow> error + pstate" where
  "token_loop closing_tags st [] = Inr st"
| "token_loop closing_tags st (token # tokens) =
     (case process_token closing_tags st token of
        Inl e \<Rightarrow> Inl e
      | Inr st' \<Rightarrow> token_loop closing_tags st' tokens)"

definition repair_writes :: "string \<Rightarrow> error + emitted list" where
  "repair_writes xbrl_string =
     (let closing_tags = map upper (findall_closing xbrl_string);
          tokens = re_split xbrl_string
      in case token_loop closing_tags \<lparr>last_open_tag = None, new_fh = []\<rparr> tokens of
           Inl e \<Rightarrow> Inl e
         | Inr st \<Rightarrow> Inr (new_fh st))"

fun written :: "emitted \<Rightarrow> string" where
  "written (Token t) = t"
| "written (Closer c) = c"

text \<open>The content of \<^verbatim>\<open>new_fh\<close> after the writes.\<close>

definition getvalue :: "emitted list \<Rightarrow> string" where
  "getvalue ws = concat (map written ws)"

text \<open>
  \<open>repair\<close> is the constructor on a stream that is there: the repaired stream, or the
  exception that leaves the constructor. \<open>XBRLPreprocessedFile\<close> adds the early return
  of line 708 for a handle that is \<open>None\<close>.
\<close>

definition repair :: "string \<Rightarrow> error + string" where
  "repair xbrl_string =
     (case repair_writes xbrl_string of Inl e \<Rightarrow> Inl e | Inr ws \<Rightarrow> Inr (getvalue ws))"

definition XBRLPreprocessedFile :: "string option \<Rightarrow> error + string option" where
  "XBRLPreprocessedFile fh =
     (case fh of
        None \<Rightarrow> Inr None
      | Some xbrl_string \<Rightarrow>
          (case repair xbrl_string of Inl e \<Rightarrow> Inl e | Inr out \<Rightarrow> Inr (Some out)))"

fun is_closer :: "emitted \<Rightarrow> bool" where
  "is_closer (Closer c) = True"
| "is_closer (Token t) = False"

fun originals :: "emitted list \<Rightarrow> string list" where
  "originals [] = []"
| "originals (Token t # ws) = t # originals ws"
| "originals (Closer c # ws) = originals ws"

text \<open>
  A token on which line 734 raises: it starts with \<open><\<close>, is neither a comment or CDATA
  marker, a closing tag nor a processing instruction, and holds no \<open>>\<close>.
\<close>

definition unanswered_open :: "string \<Rightarrow> bool" where
  "unanswered_open tok =
     (startswith tok ''<'' \<and> \<not> startswith tok ''<!'' \<and> \<not> startswith tok ''</''
        \<and> \<not> startswith tok ''<?'' \<and> CHR ''>'' \<notin> set tok)"

section \<open>The temporal context resolver: \<^verbatim>\<open>XBRL.get_GAAP\<close>, lines 47 to 92\<close>

text \<open>
  A day is its proleptic Gregorian ordinal, as \<^verbatim>\<open>toordinal()\<close> gives it:
  0001-01-01 is day 1 and 9999-12-31 is day 3652059, and these are the first and the
  last day that \<^verbatim>\<open>datetime.date\<close> and \<^verbatim>\<open>datetime.datetime\<close> can represent.
  A \<^verbatim>\<open>timedelta\<close> holds between -999999999 and 999999999 days.
\<close>

definition representable :: "int \<Rightarrow> bool" where
  "representable n = (1 \<le> n \<and> n \<le> 3652059)"

definition timedelta_days_ok :: "int \<Rightarrow> bool" where
  "timedelta_days_ok n = (- 999999999 \<le> n \<and> n \<le> 999999999)"

text \<open>
  A point in time as \<^verbatim>\<open>get_GAAP\<close> handles it: a \<^verbatim>\<open>datetime.date\<close> (its day), or
  a naive \<^verbatim>\<open>datetime.datetime\<close> (its day and the microsecond of that day).
\<close>

datatype moment = Date int | Datetime int nat

text \<open>
  An entry of \<^verbatim>\<open>context_ids\<close> is the 1-tuple \<^verbatim>\<open>(instant,)\<close> or the 2-tuple
  \<^verbatim>\<open>(start, end)\<close> that \<^verbatim>\<open>parse_contexts\<close> stores. Its members are the
  \<^verbatim>\<open>datetime\<close> values of \<^verbatim>\<open>strptime(..., "%Y%m%d")\<close>, at midnight, and are given by
  their days. The dictionary is the list of its items in insertion order.
\<close>

datatype ctx_dates = Instant int | Duration int int

type_synonym catalog = "(string \<times> ctx_dates) list"

text \<open>
  The \<^verbatim>\<open>end_date\<close> argument: \<open>None\<close> (also the default), a string, or a
  \<^verbatim>\<open>date\<close> or naive \<^verbatim>\<open>datetime\<close> object. Arguments of other types are not
  modelled.
\<close>

datatype end_date_arg = NoEndDate | EndString string | EndValue moment

text \<open>
  Lines 50 to 53. \<open>today\<close> is the day \<^verbatim>\<open>datetime.date.today()\<close> returns, and
  \<open>strptime\<close> is \<^verbatim>\<open>datetime.datetime.strptime(_, "%Y%m%d")\<close>: the day of the
  midnight datetime it returns, or \<open>None\<close> for its \<open>ValueError\<close>. Both belong to the
  standard library and are parameters of the model. The default is a \<^verbatim>\<open>date\<close>, not
  a \<^verbatim>\<open>datetime\<close>.
\<close>

fun to_end_date :: "int \<Rightarrow> (string \<Rightarrow> int option) \<Rightarrow> end_date_arg \<Rightarrow> error + moment" where
  "to_end_date today strptime NoEndDate = Inr (Date today)"
| "to_end_date today strptime (EndString s) =
     (case strptime s of
        None \<Rightarrow> Inl (ValueError s)
      | Some day \<Rightarrow> Inr (Datetime day 0))"
| "to_end_date today strptime (EndValue m) = Inr m"

text \<open>
  The \<^verbatim>\<open>context\<close> argument: the strings \<^verbatim>\<open>"quarter"\<close>, \<^verbatim>\<open>"year"\<close> and
  \<^verbatim>\<open>"instant"\<close>, a \<^verbatim>\<open>timedelta\<close> (of whole days), a value whose \<^verbatim>\<open>int()\<close> is a
  day count, or a value that \<^verbatim>\<open>int()\<close> rejects.
\<close>

datatype selector = Quarter | Year | InstantSel | Timedelta int | DayCount int | Unconvertible

text \<open>\<^verbatim>\<open>context\<close> after lines 56 to 72: still the string \<^verbatim>\<open>"instant"\<close>, or a duration.\<close>

datatype period = PInstant | PDelta int

text \<open>
  Lines 56 to 72. \<^verbatim>\<open>datetime.timedelta(days=int(context))\<close> raises
  \<open>OverflowError\<close> for a day count beyond 999999999 in magnitude, which the
  \<^verbatim>\<open>except (ValueError, TypeError)\<close> of line 71 does not catch.
\<close>

fun to_context :: "selector \<Rightarrow> error + period" where
  "to_context Quarter = Inr (PDelta 90)"
| "to_context Year = Inr (PDelta 360)"
| "to_context InstantSel = Inr PInstant"
| "to_context (Timedelta d) = Inr (PDelta d)"
| "to_context (DayCount n) =
     (if timedelta_days_ok n then Inr (PDelta n) else Inl OverflowError)"
| "to_context Unconvertible = Inl (ValueError ''invalid context'')"

text \<open>
  \<^verbatim>\<open>end_date - context\<close> (line 77): the same kind of value, \<open>days\<close> days earlier;
  \<open>OverflowError\<close> when that day cannot be represented.
\<close>

fun minus_days :: "moment \<Rightarrow> int \<Rightarrow> error + moment" where
  "minus_days (Date n) days =
     (if representable (n - days) then Inr (Date (n - days)) else Inl OverflowError)"
| "minus_days (Datetime n us) days =
     (if representable (n - days) then Inr (Datetime (n - days) us) else Inl OverflowError)"

text \<open>
  Lines 75 to 77: \<^verbatim>\<open>start_date\<close> stays \<open>None\<close> for \<^verbatim>\<open>"instant"\<close>. Nothing reads the
  variable afterwards, but computing it can raise.
\<close>

fun start_date_of :: "period \<Rightarrow> moment \<Rightarrow> error + moment option" where
  "start_date_of PInstant end_date = Inr None"
| "start_date_of (PDelta days) end_date =
     (case minus_days end_date days of
        Inl e \<Rightarrow> Inl e
      | Inr start_date \<Rightarrow> Inr (Some start_date))"

text \<open>
  \<^verbatim>\<open>found == end_date\<close> for a catalog datetime \<open>found\<close> (at midnight): a
  \<^verbatim>\<open>datetime\<close> never equals a \<^verbatim>\<open>date\<close> that is not a \<^verbatim>\<open>datetime\<close>, and equals a
  \<^verbatim>\<open>datetime\<close> of the same day and time.
\<close>

fun equals_end_date :: "int \<Rightarrow> moment \<Rightarrow> bool" where
  "equals_end_date found (Date n) = False"
| "equals_end_date found (Datetime n us) = (found = n \<and> us = 0)"

text \<open>
  The loop of lines 80 to 89; \<open>None\<close> is \<^verbatim>\<open>ctx_id\<close> left at \<open>None\<close>. On a 1-tuple the
  first test decides and the \<^verbatim>\<open>elif\<close> is false. On a 2-tuple the first test is false
  (its length is not 1) and the \<^verbatim>\<open>elif\<close> branch compares \<^verbatim>\<open>context\<close> with a
  \<^verbatim>\<open>timedelta\<close>: when \<^verbatim>\<open>context\<close> is the string \<^verbatim>\<open>"instant"\<close> the comparison
  \<^verbatim>\<open>str <= timedelta\<close> raises \<open>TypeError\<close>. The chained comparison of line 86
  computes \<^verbatim>\<open>context + datetime.timedelta(weeks=1)\<close> only when its first half holds;
  the sum raises \<open>OverflowError\<close> beyond 999999999 days.
\<close>

fun find_ctx_id :: "period \<Rightarrow> moment \<Rightarrow> catalog \<Rightarrow> error + string option" where
  "find_ctx_id context end_date [] = Inr None"
| "find_ctx_id context end_date ((cid, Instant d) # rest) =
     (if context = PInstant \<and> equals_end_date d end_date then Inr (Some cid)
      else find_ctx_id context end_date rest)"
| "find_ctx_id context end_date ((cid, Duration found_start_date found_end_date) # rest) =
     (case context of
        PInstant \<Rightarrow> Inl TypeError
      | PDelta days \<Rightarrow>
          if days \<le> found_end_date - found_start_date then
            (if \<not> timedelta_days_ok (days + 7) then Inl OverflowError
             else if found_end_date - found_start_date \<le> days + 7
                     \<and> equals_end_date found_end_date end_date
             then Inr (Some cid)
             else find_ctx_id context end_date rest)
          else find_ctx_id context end_date rest)"

text \<open>
  The context id that \<^verbatim>\<open>get_GAAP\<close> settles on (lines 47 to 92). The report object
  built from it in lines 94 to 99 is not modelled.
\<close>

definition get_GAAP_ctx_id ::
  "int \<Rightarrow> (string \<Rightarrow> int option) \<Rightarrow> catalog \<Rightarrow> selector \<Rightarrow> end_date_arg \<Rightarrow> error + string" where
  "get_GAAP_ctx_id today strptime context_ids sel end_date_given =
     (case to_end_date today strptime end_date_given of
        Inl e \<Rightarrow> Inl e
      | Inr end_date \<Rightarrow>
     (case to_context sel of
        Inl e \<Rightarrow> Inl e
      | Inr context \<Rightarrow>
     (case start_date_of context end_date of
        Inl e \<Rightarrow> Inl e
      | Inr start_date \<Rightarrow>
     (case find_ctx_id context end_date context_ids of
        Inl e \<Rightarrow> Inl e
      | Inr None \<Rightarrow> Inl (Exception ''no context id matched'')
      | Inr (Some ctx_id) \<Rightarrow> Inr ctx_id))))"

text \<open>
  The specification's matching rule for duration selectors, in its own words: an entry
  qualifies when it is a duration context whose end date equals the requested one and
  whose span lies in the closed interval from the selector's duration to seven days
  more; the first qualifying entry in catalog order wins, and none is
  NoContextMatchError.
\<close>

fun spec_duration_qualifies :: "int \<Rightarrow> int \<Rightarrow> string \<times> ctx_dates \<Rightarrow> bool" where
  "spec_duration_qualifies dur end_date (cid, Duration s e) =
     (e = end_date \<and> dur \<le> e - s \<and> e - s \<le> dur + 7)"
| "spec_duration_qualifies dur end_date (cid, Instant d) = False"

definition spec_resolve_duration :: "catalog \<Rightarrow> int \<Rightarrow> int \<Rightarrow> error + string" where
  "spec_resolve_duration cat dur end_date =
     (case List.find (spec_duration_qualifies dur end_date) cat of
        Some (cid, bounds) \<Rightarrow> Inr cid
      | None \<Rightarrow> Inl (Exception ''no context id matched''))"

text \<open>
  For evaluation at concrete calls \<open>strptime\<close> is instantiated by \<open>strptime_ymd\<close>,
  which reads a string of exactly eight decimal digits as year, month and day and gives
  the day of that calendar date, and \<open>today\<close> by 2026-11-04 (day 739924). On
  eight-digit strings \<open>strptime_ymd\<close> agrees with \<^verbatim>\<open>strptime(_, "%Y%m%d")\<close>; it
  rejects every other string, and the evaluations use it on eight-digit strings only.
\<close>

definition is_leap :: "int \<Rightarrow> bool" where
  "is_leap y = (y mod 4 = 0 \<and> \<not> (y mod 100 = 0 \<and> y mod 400 \<noteq> 0))"

definition days_in_month :: "int \<Rightarrow> int \<Rightarrow> int" where
  "days_in_month y m =
     (if m = 2 then (if is_leap y then 29 else 28)
      else if m \<in> {4, 6, 9, 11} then 30 else 31)"

definition days_before_month :: "int \<Rightarrow> int \<Rightarrow> int" where
  "days_before_month y m =
     [0, 31, 59, 90, 120, 151, 181, 212, 243, 273, 304, 334] ! nat (m - 1)
       + (if m > 2 \<and> is_leap y then 1 else 0)"

definition ymd_to_ordinal :: "int \<Rightarrow> int \<Rightarrow> int \<Rightarrow> int" where
  "ymd_to_ordinal y m d =
     365 * (y - 1) + (y - 1) div 4 - (y - 1) div 100 + (y - 1) div 400
       + days_before_month y m + d"

definition digits_value :: "string \<Rightarrow> int" where
  "digits_value s = foldl (\<lambda>a c. 10 * a + (int (of_char c) - 48)) 0 s"

definition strptime_ymd :: "string \<Rightarrow> int option" where
  "strptime_ymd s =
     (if length s = 8 \<and> list_all (\<lambda>c. c \<in> set ''0123456789'') s then
        (let y = digits_value (take 4 s);
             m = digits_value (take 2 (drop 4 s));
             d = digits_value (drop 6 s)
         in if 1 \<le> y \<and> 1 \<le> m \<and> m \<le> 12 \<and> 1 \<le> d \<and> d \<le> days_in_month y m
            then Some (ymd_to_ordinal y m d) else None)
      else None)"

definition sample_today :: int where
  "sample_today = 739924"

section \<open>The fact extraction engine: \<^verbatim>\<open>XBRL.data_processing\<close>\<close>

text \<open>
  A matched node, as far as \<^verbatim>\<open>data_processing\<close> reads it: the attribute dictionary
  \<^verbatim>\<open>attrs\<close> and the text.
\<close>

record element =
  attrs :: "(string \<times> string) list"
  el_text :: string

text \<open>
  A stored number is a Python \<^verbatim>\<open>int\<close> or a \<^verbatim>\<open>float\<close>. The builtins \<^verbatim>\<open>float()\<close>
  and \<^verbatim>\<open>int()\<close> on a string are parameters of the model, \<open>to_float\<close> and
  \<open>to_int\<close>: \<open>None\<close> is their \<open>ValueError\<close>, and \<open>'f\<close> is the type of what
  \<^verbatim>\<open>float()\<close> returns.
\<close>

datatype 'f number = PyInt int | PyFloat 'f

text \<open>What \<^verbatim>\<open>data_processing\<close> returns: the text of a node, or the dictionary \<^verbatim>\<open>data\<close>.\<close>

datatype 'f extracted = Text string | Data "(string \<times> 'f number) list"

record options =
  opt_type :: string
  no_context :: bool

definition default_options :: options where
  "default_options = \<lparr>opt_type = ''Number'', no_context = False\<rparr>"

definition is_number :: "(string \<Rightarrow> 'f option) \<Rightarrow> string \<Rightarrow> bool" where
  "is_number to_float s = (case to_float s of Some f \<Rightarrow> True | None \<Rightarrow> False)"

text \<open>
  The body of the \<^verbatim>\<open>try\<close> (lines 681 to 690) on one node: the exception it raises, or
  the pair it stores in \<^verbatim>\<open>data\<close>, or nothing when the text is not numeric. Both
  attribute reads index the dictionary (\<^verbatim>\<open>attrs['contextref']\<close>,
  \<^verbatim>\<open>attrs['decimals']\<close>), which raises \<open>KeyError\<close> on a missing key. A value read
  from the dictionary is a string, never \<open>None\<close>, so the test of line 686 holds.
\<close>

definition try_element ::
  "(string \<Rightarrow> 'f option) \<Rightarrow> (string \<Rightarrow> int option) \<Rightarrow> element
     \<Rightarrow> error + (string \<times> 'f number) option" where
  "try_element to_float to_int element =
     (case map_of (attrs element) ''contextref'' of
        None \<Rightarrow> Inl (KeyError ''contextref'')
      | Some ctx \<Rightarrow>
          if is_number to_float (el_text element) then
            (case map_of (attrs element) ''decimals'' of
               None \<Rightarrow> Inl (KeyError ''decimals'')
             | Some decimals \<Rightarrow>
                 (case to_int decimals of
                    None \<Rightarrow> Inl (ValueError decimals)
                  | Some attr_precision \<Rightarrow>
                      if attr_precision > 0 then
                        (case to_float (el_text element) of
                           None \<Rightarrow> Inl (ValueError (el_text element))
                         | Some f \<Rightarrow> Inr (Some (ctx, PyFloat f)))
                      else
                        (case to_int (el_text element) of
                           None \<Rightarrow> Inl (ValueError (el_text element))
                         | Some i \<Rightarrow> Inr (Some (ctx, PyInt i)))))
          else Inr None)"

text \<open>
  An entry of the diagnostic sink: the exception caught and the text of the node.
  \<open>logger\<close> says whether a logger was passed (\<open>False\<close> is \<open>None\<close>, on which
  \<^verbatim>\<open>logger.error\<close> raises \<open>AttributeError\<close> inside the handler).
\<close>

type_synonym log_entry = "error \<times> string"

fun element_loop ::
  "(string \<Rightarrow> 'f option) \<Rightarrow> (string \<Rightarrow> int option) \<Rightarrow> int \<Rightarrow> bool
     \<Rightarrow> element list \<Rightarrow> (string \<times> 'f number) list \<Rightarrow> log_entry list
     \<Rightarrow> error + ((string \<times> 'f number) list \<times> log_entry list)" where
  "element_loop to_float to_int ignore_errors logger [] data sink = Inr (data, sink)"
| "element_loop to_float to_int ignore_errors logger (element # elements) data sink =
     (case try_element to_float to_int element of
        Inr None \<Rightarrow> element_loop to_float to_int ignore_errors logger elements data sink
      | Inr (Some (ctx, v)) \<Rightarrow>
          element_loop to_float to_int ignore_errors logger elements
            (AList.update ctx v data) sink
      | Inl e \<Rightarrow>
          if ignore_errors = 0 then Inl (XBRLException ''value extraction error'')
          else if ignore_errors = 2 then
            (if logger
             then element_loop to_float to_int ignore_errors logger elements data
                    (sink @ [(e, el_text element)])
             else Inl AttributeError)
          else element_loop to_float to_int ignore_errors logger elements data sink)"

text \<open>
  \<^verbatim>\<open>data_processing\<close> (lines 658 to 699): the value returned and the entries written to
  the sink, or the exception. The two early returns are guarded by \<^verbatim>\<open>if\<close> without
  \<^verbatim>\<open>else\<close>: where a guard fails, control falls through to the loop.
\<close>

definition data_processing ::
  "(string \<Rightarrow> 'f option) \<Rightarrow> (string \<Rightarrow> int option) \<Rightarrow> element list \<Rightarrow> int \<Rightarrow> bool
     \<Rightarrow> options \<Rightarrow> error + ('f extracted \<times> log_entry list)" where
  "data_processing to_float to_int elements ignore_errors logger opts =
     (if opt_type opts = ''String'' \<and> length elements > 0
      then Inr (Text (el_text (hd elements)), [])
      else if no_context opts \<and> length elements > 0
                \<and> is_number to_float (el_text (hd elements))
      then Inr (Text (el_text (hd elements)), [])
      else (case element_loop to_float to_int ignore_errors logger elements [] [] of
              Inl e \<Rightarrow> Inl e
            | Inr (data, sink) \<Rightarrow> Inr (Data data, sink)))"

text \<open>An extraction failure on a node: the body of the \<^verbatim>\<open>try\<close> raises.\<close>

definition extraction_fails ::
  "(string \<Rightarrow> 'f option) \<Rightarrow> (string \<Rightarrow> int option) \<Rightarrow> element \<Rightarrow> bool" where
  "extraction_fails to_float to_int element = isl (try_element to_float to_int element)"

section \<open>GAAP parsing: \<^verbatim>\<open>XBRL.parse_GAAP\<close>\<close>

text \<open>
  The parsed document is the tree library's answer to each \<^verbatim>\<open>find_all\<close> query of
  \<^verbatim>\<open>parse_GAAP\<close>: a function from the query to the list of matched nodes. A query is
  named by its tag name or pattern as the source writes it; where a line continuation
  leaves a run of blanks inside the literal, the name has one blank.
\<close>

type_synonym soup = "string \<Rightarrow> element list"

text \<open>
  The entries of \<^verbatim>\<open>gaap_data\<close> that follow \<^verbatim>\<open>non_current_assets\<close> (lines 266 to
  580), in order: the key and the queries whose results are concatenated and passed to
  \<^verbatim>\<open>data_processing\<close>. \<^verbatim>\<open>income_loss\<close> is computed twice, the second time with
  one more query.
\<close>

definition gaap_fields :: "(string \<times> string list) list" where
  "gaap_fields =
     [(''liabilities_and_equity'', [''(us-gaap:)[^s]*(liabilitiesand)'']),
      (''liabilities'', [''(us-gaap:)[^s]*(liabilities)'']),
      (''current_liabilities'', [''(us-gaap:)[^s] *(currentliabilities)'']),
      (''noncurrent_liabilities'', [''(us-gaap:)[^s] *(noncurrentliabilities)'']),
      (''commitments_and_contingencies'', [''(us-gaap:commitments andcontingencies)'']),
      (''redeemable_noncontrolling_interest'',
         [''(us-gaap:redeemablenoncontrolling interestequity)'']),
      (''temporary_equity'', [''(us-gaap:)[^s]*(temporaryequity)'']),
      (''equity'', [''(us-gaap:)[^s]*(equity)'']),
      (''equity_attributable_interest'',
         [''(us-gaap:minorityinterest)'',
          ''(us-gaap:partnerscapitalattributable tononcontrollinginterest)'']),
      (''equity_attributable_parent'', [''(us-gaap:liabilitiesandpartners capital)'']),
      (''stockholders_equity'', [''(us-gaap:stockholdersequity)'']),
      (''revenues'', [''(us-gaap:)[^s]*(revenues)'']),
      (''cost_of_revenue'',
         [''(us-gaap:costofrevenue)'', ''(us-gaap:costofservices)'',
          ''(us-gaap:costofgoodssold)'', ''(us-gaap:costofgoodsand servicessold)'']),
      (''gross_profit'', [''(us-gaap:)[^s]*(grossprofit)'']),
      (''operating_expenses'', [''(us-gaap:operating)[^s]*(expenses)'']),
      (''costs_and_expenses'', [''(us-gaap:)[^s]*(costsandexpenses)'']),
      (''other_operating_income'', [''(us-gaap:otheroperatingincome)'']),
      (''operating_income_loss'', [''(us-gaap:otheroperatingincome)'']),
      (''nonoperating_income_loss'', [''(us-gaap:nonoperatingincomeloss)'']),
      (''interest_and_debt_expense'', [''(us-gaap:interestanddebtexpense)'']),
      (''income_before_equity_investments'',
         [''(us-gaap:incomelossfromcontinuingoperationsbeforeincometaxesminorityinterest)'']),
      (''income_from_equity_investments'',
         [''(us-gaap:incomelossfromequitymethodinvestments)'']),
      (''income_tax_expense_benefit'', [''(us-gaap:incometaxexpensebenefit)'']),
      (''income_continuing_operations_tax'',
         [''(us-gaap:IncomeLossBeforeExtraordinaryItems AndCumulativeEffectOfChangeInAccountingPrinciple)'']),
      (''income_discontinued_operations'', [''(us-gaap:)[^s]*(discontinuedoperation)'']),
      (''extraordary_items_gain_loss'', [''(us-gaap:extraordinaryitemnetoftax)'']),
      (''income_loss'', [''(us-gaap:)[^s]*(incomeloss)'']),
      (''income_loss'', [''(us-gaap:)[^s]*(incomeloss)'', ''(us-gaap:profitloss)'']),
      (''net_income_shareholders'',
         [''(us-gaap:netincomeavailabletocommon stockholdersbasic)'']),
      (''preferred_stock_dividends'',
         [''(us-gaap:preferredstockdividendsand otheradjustments)'']),
      (''net_income_loss_noncontrolling'',
         [''(us-gaap:netincomelossattributableto noncontrollinginterest)'']),
      (''net_income_loss'', [''^us-gaap:netincomeloss$'']),
      (''other_comprehensive_income'',
         [''(us-gaap:othercomprehensiveincomeloss netoftax)'']),
      (''comprehensive_income'', [''(us-gaap:comprehensiveincome)'']),
      (''comprehensive_income_parent'', [''(us-gaap:comprehensiveincomenetoftax)'']),
      (''comprehensive_income_interest'',
         [''(us-gaap:comprehensiveincomenetoftax attributabletononcontrollinginterest)'']),
      (''net_cash_flows_operating'',
         [''(us-gaap:netcashprovidedbyusedin operatingactivities)'']),
      (''net_cash_flows_investing'',
         [''(us-gaap:netcashprovidedbyusedin investingactivities)'']),
      (''net_cash_flows_financing'',
         [''(us-gaap:netcashprovidedbyusedin financingactivities)'']),
      (''net_cash_operating_continuing'',
         [''(us-gaap:netcashprovidedbyusedin operatingactivitiescontinuingoperations)'']),
      (''net_cash_flows_investing_continuing'',
         [''(us-gaap:netcashprovidedbyusedin investingactivitiescontinuingoperations)'']),
      (''net_cash_flows_financing_continuing'',
         [''(us-gaap:netcashprovidedbyusedin financingactivitiescontinuingoperations)'']),
      (''net_cash_flows_operating_discontinued'',
         [''(us-gaap:cashprovidedbyusedin operatingactivitiesdiscontinuedoperations)'']),
      (''net_cash_flows_investing_discontinued'',
         [''(us-gaap:cashprovidedbyusedin investingactivitiesdiscontinuedoperations)'']),
      (''net_cash_flows_discontinued'',
         [''(us-gaap:netcashprovidedbyusedin discontinuedoperations)'']),
      (''common_shares_outstanding'', [''(us-gaap:commonstockshares outstanding)'']),
      (''common_shares_issued'', [''(us-gaap:commonstockshares issued)'']),
      (''common_shares_authorized'', [''(us-gaap:commonstockshares authorized)''])]"

type_synonym 'f gaap_data = "(string \<times> 'f extracted) list"

fun process_fields ::
  "(string \<Rightarrow> 'f option) \<Rightarrow> (string \<Rightarrow> int option) \<Rightarrow> soup \<Rightarrow> int \<Rightarrow> bool
     \<Rightarrow> (string \<times> string list) list \<Rightarrow> 'f gaap_data \<Rightarrow> log_entry list
     \<Rightarrow> error + ('f gaap_data \<times> log_entry list)" where
  "process_fields to_float to_int xbrl ignore_errors logger [] gaap_data sink =
     Inr (gaap_data, sink)"
| "process_fields to_float to_int xbrl ignore_errors logger ((key, queries) # rest)
     gaap_data sink =
     (case data_processing to_float to_int (concat (map xbrl queries)) ignore_errors logger
             default_options of
        Inl e \<Rightarrow> Inl e
      | Inr (v, written_entries) \<Rightarrow>
          process_fields to_float to_int xbrl ignore_errors logger rest
            (AList.update key v gaap_data) (sink @ written_entries))"

text \<open>
  \<^verbatim>\<open>gaap_data["assets"] - gaap_data["current_assets"]\<close> (line 260). Both operands are
  results of \<^verbatim>\<open>data_processing\<close>, a dictionary or a string, and Python defines no
  subtraction on either: the expression raises \<open>TypeError\<close> whatever they hold.
\<close>

fun subtract_extracted :: "'f extracted \<Rightarrow> 'f extracted \<Rightarrow> error + 'f extracted" where
  "subtract_extracted a b = Inl TypeError"

text \<open>
  \<^verbatim>\<open>parse_GAAP\<close> (lines 239 to 582). The test of line 258,
  \<^verbatim>\<open>non_current_assets == 0 or not non_current_assets\<close>, holds exactly for the empty
  result list.
\<close>

definition parse_GAAP ::
  "(string \<Rightarrow> 'f option) \<Rightarrow> (string \<Rightarrow> int option) \<Rightarrow> soup \<Rightarrow> int \<Rightarrow> bool
     \<Rightarrow> error + ('f gaap_data \<times> log_entry list)" where
  "parse_GAAP to_float to_int xbrl ignore_errors logger =
     (case data_processing to_float to_int (xbrl ''us-gaap:assets'') ignore_errors logger
             default_options of
        Inl e \<Rightarrow> Inl e
      | Inr (assets, sink1) \<Rightarrow>
     (case data_processing to_float to_int (xbrl ''us-gaap:assetscurrent'') ignore_errors
             logger default_options of
        Inl e \<Rightarrow> Inl e
      | Inr (current_assets, sink2) \<Rightarrow>
     (case (let non_current_assets = xbrl ''(us-gaap:)[^s]*(assetsnoncurrent)''
            in if non_current_assets = []
               then (case subtract_extracted assets current_assets of
                       Inl e \<Rightarrow> Inl e
                     | Inr v \<Rightarrow> Inr (v, []))
               else data_processing to_float to_int non_current_assets ignore_errors logger
                      default_options) of
        Inl e \<Rightarrow> Inl e
      | Inr (non_current, sink3) \<Rightarrow>
          process_fields to_float to_int xbrl ignore_errors logger gaap_fields
            [(''assets'', assets), (''current_assets'', current_assets),
             (''non_current_assets'', non_current)]
            (sink1 @ sink2 @ sink3))))"

section \<open>Decimal literals\<close>

text \<open>
  For evaluation at concrete nodes the parameters \<open>to_float\<close> and \<open>to_int\<close> are
  instantiated by \<open>dec_float\<close> and \<open>dec_int\<close>: \<^verbatim>\<open>int()\<close> on an optional sign and
  decimal digits, \<^verbatim>\<open>float()\<close> on an optional sign, decimal digits and at most one
  decimal point, the value kept as a rational. They reject every other string; the
  evaluations below use them only on literals on which they agree with Python
  (\<^verbatim>\<open>"1000"\<close>, \<^verbatim>\<open>"250"\<close>, \<^verbatim>\<open>"2"\<close>, \<^verbatim>\<open>"0"\<close>, \<^verbatim>\<open>"n/a"\<close>).
\<close>

definition dec_nat :: "string \<Rightarrow> nat option" where
  "dec_nat s =
     (if s \<noteq> [] \<and> list_all (\<lambda>c. c \<in> set ''0123456789'') s
      then Some (foldl (\<lambda>a c. 10 * a + (of_char c - 48)) 0 s)
      else None)"

definition dec_int :: "string \<Rightarrow> int option" where
  "dec_int s =
     (if startswith s ''-'' then map_option (\<lambda>n. - int n) (dec_nat (drop 1 s))
      else if startswith s ''+'' then map_option int (dec_nat (drop 1 s))
      else map_option int (dec_nat s))"

definition dec_float :: "string \<Rightarrow> rat option" where
  "dec_float s =
     (let body = (if startswith s ''-'' \<or> startswith s ''+'' then drop 1 s else s);
          sgn = (if startswith s ''-'' then - 1 else 1);
          ip = takeWhile (\<lambda>c. c \<in> set ''0123456789'') body;
          rest = dropWhile (\<lambda>c. c \<in> set ''0123456789'') body;
          fp = drop 1 rest
      in if rest = [] then map_option (\<lambda>n. sgn * of_nat n) (dec_nat ip)
         else if startswith rest ''.'' \<and> list_all (\<lambda>c. c \<in> set ''0123456789'') fp
                 \<and> \<not> (ip = [] \<and> fp = [])
         then map_option (\<lambda>n. sgn * of_nat n / 10 ^ length fp) (dec_nat (ip @ fp))
         else None)"

section \<open>Concrete nodes and documents\<close>

text \<open>
  Nodes and documents for the evaluations: a numeric node without \<^verbatim>\<open>contextref\<close>, a
  well-formed numeric node, the same node with \<^verbatim>\<open>decimals="2"\<close> and without a
  \<^verbatim>\<open>decimals\<close> attribute, a non-numeric node without and with \<^verbatim>\<open>contextref\<close>;
  a document with no GAAP tag at all, and one whose only GAAP tag is an
  \<^verbatim>\<open>us-gaap:assets\<close> node without \<^verbatim>\<open>contextref\<close>.
\<close>

definition bad_node :: element where
  "bad_node = \<lparr>attrs = [(''decimals'', ''0'')], el_text = ''250''\<rparr>"

definition good_node :: element where
  "good_node = \<lparr>attrs = [(''contextref'', ''c1''), (''decimals'', ''0'')], el_text = ''1000''\<rparr>"

definition two_decimals_node :: element where
  "two_decimals_node =
     \<lparr>attrs = [(''contextref'', ''c1''), (''decimals'', ''2'')], el_text = ''1000''\<rparr>"

definition no_decimals_node :: element where
  "no_decimals_node = \<lparr>attrs = [(''contextref'', ''c1'')], el_text = ''1000''\<rparr>"

definition na_node :: element where
  "na_node = \<lparr>attrs = [], el_text = ''n/a''\<rparr>"

definition na_ctx_node :: element where
  "na_ctx_node = \<lparr>attrs = [(''contextref'', ''c0'')], el_text = ''n/a''\<rparr>"

definition contextless_number :: options where
  "contextless_number = \<lparr>opt_type = ''Number'', no_context = True\<rparr>"

definition empty_doc :: soup where
  "empty_doc q = []"

definition bad_assets_doc :: soup where
  "bad_assets_doc q = (if q = ''us-gaap:assets'' then [bad_node] else [])"

section \<open>Properties of the preprocessor\<close>

subsection \<open>Splitting loses no text\<close>

lemma match_name_gt_concat:
  assumes "match_name_gt s = Some (nm, r)"
  shows "s = nm @ ''>'' @ r"
proof -
  from assms have nm: "nm = takeWhile name_char s" and r: "r = tl (dropWhile name_char s)"
    and hd: "take 1 (dropWhile name_char s) = ''>''"
    by (auto simp: match_name_gt_def Let_def startswith_def split: if_splits)
  from hd have "dropWhile name_char s = ''>'' @ r"
    unfolding r by (cases "dropWhile name_char s") auto
  then show ?thesis
    unfolding nm by (metis takeWhile_dropWhile_id)
qed

lemma startswith_append_drop:
  "startswith s p \<Longrightarrow> s = p @ drop (length p) s"
  unfolding startswith_def by (metis append_take_drop_id)

lemma match_tag_concat:
  assumes "match_tag s = Some (t, r)"
  shows "s = t @ r"
proof (cases "startswith s ''</''")
  case True
  with assms obtain nm where m: "match_name_gt (drop 2 s) = Some (nm, r)"
    and t: "t = ''</'' @ nm @ ''>''"
    by (auto simp: match_tag_def split: option.splits)
  from startswith_append_drop [OF True] have "s = ''</'' @ drop 2 s"
    by (simp add: numeral_2_eq_2)
  with match_name_gt_concat [OF m] t show ?thesis by simp
next
  case False
  with assms obtain nm where s: "startswith s ''<''"
    and m: "match_name_gt (drop 1 s) = Some (nm, r)" and t: "t = ''<'' @ nm @ ''>''"
    by (auto simp: match_tag_def split: option.splits if_splits)
  from startswith_append_drop [OF s] have "s = ''<'' @ drop 1 s" by simp
  with match_name_gt_concat [OF m] t show ?thesis by simp
qed

lemma concat_re_split_from: "concat (re_split_from cur s) = cur @ s"
proof (induction cur s rule: re_split_from.induct)
  case (1 cur s)
  show ?case
  proof (cases "match_tag s")
    case None
    show ?thesis
    proof (cases s)
      case Nil
      with None show ?thesis by (subst re_split_from.simps) simp
    next
      case (Cons c cs)
      with None "1.IH"(1) [OF None Cons] show ?thesis
        by (subst re_split_from.simps) simp
    qed
  next
    case (Some p)
    obtain tag rest where p: "p = (tag, rest)" by (cases p)
    from Some p have m: "match_tag s = Some (tag, rest)" by simp
    from "1.IH"(2) [OF m refl] match_tag_concat [OF m] m show ?thesis
      by (subst re_split_from.simps) simp
  qed
qed

lemma concat_re_split: "concat (re_split s) = s"
  by (simp add: re_split_def concat_re_split_from)

subsection \<open>The loop only adds closers\<close>

lemma originals_append: "originals (xs @ ys) = originals xs @ originals ys"
  by (induction xs rule: originals.induct) auto

lemma process_token_writes:
  assumes "process_token cl st tok = Inr st'"
  shows "\<exists>ws. new_fh st' = new_fh st @ ws \<and> originals ws = [tok]
            \<and> (\<forall>w\<in>set ws. is_closer w \<longrightarrow> (\<exists>n. w = Closer (''</'' @ n @ ''>'')))"
  using assms unfolding process_token_def Let_def
  by (auto split: if_splits option.splits)

lemma token_loop_writes:
  assumes "token_loop cl st toks = Inr st'"
  shows "\<exists>ws. new_fh st' = new_fh st @ ws \<and> originals ws = toks
            \<and> (\<forall>w\<in>set ws. is_closer w \<longrightarrow> (\<exists>n. w = Closer (''</'' @ n @ ''>'')))"
  using assms
proof (induction toks arbitrary: st)
  case Nil
  then show ?case by simp
next
  case (Cons tok toks)
  from Cons.prems obtain st1 where p: "process_token cl st tok = Inr st1"
    and l: "token_loop cl st1 toks = Inr st'"
    by (auto split: sum.splits)
  from process_token_writes [OF p] obtain ws1 where
    w1: "new_fh st1 = new_fh st @ ws1" "originals ws1 = [tok]"
        "\<forall>w\<in>set ws1. is_closer w \<longrightarrow> (\<exists>n. w = Closer (''</'' @ n @ ''>''))"
    by blast
  from Cons.IH [OF l] obtain ws2 where
    w2: "new_fh st' = new_fh st1 @ ws2" "originals ws2 = toks"
        "\<forall>w\<in>set ws2. is_closer w \<longrightarrow> (\<exists>n. w = Closer (''</'' @ n @ ''>''))"
    by blast
  show ?case
  proof (intro exI conjI)
    show "new_fh st' = new_fh st @ (ws1 @ ws2)" using w1(1) w2(1) by simp
    show "originals (ws1 @ ws2) = tok # toks" using w1(2) w2(2) by (simp add: originals_append)
    show "\<forall>w\<in>set (ws1 @ ws2). is_closer w \<longrightarrow> (\<exists>n. w = Closer (''</'' @ n @ ''>''))"
      using w1(3) w2(3) by auto
  qed
qed

lemma getvalue_remove_closers:
  "getvalue (filter (\<lambda>w. \<not> is_closer w) ws) = concat (originals ws)"
  unfolding getvalue_def by (induction ws rule: originals.induct) auto

lemma length_getvalue_originals:
  "length (concat (originals ws)) \<le> length (getvalue ws)"
  unfolding getvalue_def by (induction ws rule: originals.induct) auto

text \<open>
  Claim C9. Whenever the preprocessor returns, it has only inserted closers: the stream
  it returns is the concatenation of its writes; the tokens among the writes are the
  tokens of the input, each unaltered and in the original order, and they concatenate to
  the input; removing the closers from the writes gives back the input stream exactly;
  the output is at least as long as the input; and every inserted write has the shape
  of a close tag, \<open></\<close> then a name then \<open>>\<close>.
\<close>

theorem repair_insertion_only:
  assumes "repair_writes s = Inr ws"
  shows "repair s = Inr (getvalue ws)
       \<and> originals ws = re_split s
       \<and> concat (re_split s) = s
       \<and> getvalue (filter (\<lambda>w. \<not> is_closer w) ws) = s
       \<and> length s \<le> length (getvalue ws)
       \<and> (\<forall>w\<in>set ws. is_closer w \<longrightarrow> (\<exists>n. w = Closer (''</'' @ n @ ''>'')))"
proof -
  from assms obtain st where
    l: "token_loop (map upper (findall_closing s)) \<lparr>last_open_tag = None, new_fh = []\<rparr>
          (re_split s) = Inr st"
    and ws: "ws = new_fh st"
    by (auto simp: repair_writes_def Let_def split: sum.splits)
  from token_loop_writes [OF l] ws have o: "originals ws = re_split s"
    and c: "\<forall>w\<in>set ws. is_closer w \<longrightarrow> (\<exists>n. w = Closer (''</'' @ n @ ''>''))"
    by auto
  have r: "repair s = Inr (getvalue ws)"
    using assms by (simp add: repair_def)
  have f: "getvalue (filter (\<lambda>w. \<not> is_closer w) ws) = s"
    by (simp add: getvalue_remove_closers o concat_re_split)
  have "length (concat (originals ws)) \<le> length (getvalue ws)"
    by (rule length_getvalue_originals)
  then have n: "length s \<le> length (getvalue ws)"
    by (simp add: o concat_re_split)
  from r o c f n show ?thesis
    by (simp add: concat_re_split)
qed

text \<open>
  The theorem at the stream \<^verbatim>\<open><br>x<p>y</p>\<close>, on which the preprocessor returns
  \<^verbatim>\<open><br>x</>><p>y</>></p>\<close>.
\<close>

theorem repair_insertion_only_witness:
  "repair_writes ''<br>x<p>y</p>'' =
     Inr [Token [], Token ''<br>'', Token ''x'', Closer ''</>>'', Token ''<p>'', Token ''y'',
          Closer ''</>>'', Token ''</p>'', Token []]
   \<and> repair ''<br>x<p>y</p>'' = Inr ''<br>x</>><p>y</>></p>''
   \<and> re_split ''<br>x<p>y</p>'' = [[], ''<br>'', ''x'', ''<p>'', ''y'', ''</p>'', []]
   \<and> length ''<br>x<p>y</p>'' \<le> length ''<br>x</>><p>y</>></p>''"
proof -
  have w: "repair_writes ''<br>x<p>y</p>'' =
     Inr [Token [], Token ''<br>'', Token ''x'', Closer ''</>>'', Token ''<p>'', Token ''y'',
          Closer ''</>>'', Token ''</p>'', Token []]"
    by code_simp
  from repair_insertion_only [OF w] w show ?thesis
    by (simp add: getvalue_def)
qed

subsection \<open>The name extracted from an open tag\<close>

text \<open>
  On a tag token that the splitting pattern matched, the first match of \<^verbatim>\<open><*>\<close> is the
  \<open>>\<close> that ends the token: the name between \<open><\<close> and \<open>>\<close> is never what line 734
  extracts.
\<close>

lemma name_char_not_angle: "name_char c \<Longrightarrow> c \<noteq> CHR ''<'' \<and> c \<noteq> CHR ''>''"
  by (auto simp: name_char_def)

lemma first_lts_gt_names:
  assumes "\<forall>c\<in>set nm. name_char c"
  shows "first_lts_gt (nm @ ''>'') = Some ''>''"
  using assms
proof (induction nm)
  case Nil
  show ?case by (simp add: match_lts_gt_def startswith_def)
next
  case (Cons c nm)
  from Cons.prems have "c \<noteq> CHR ''<''" "c \<noteq> CHR ''>''"
    using name_char_not_angle by auto
  then have "match_lts_gt (c # nm @ ''>'') = None"
    by (simp add: match_lts_gt_def startswith_def)
  with Cons show ?case by simp
qed

lemma match_name_gt_names:
  assumes "match_name_gt s = Some (nm, r)"
  shows "nm \<noteq> [] \<and> (\<forall>c\<in>set nm. name_char c)"
proof -
  from assms have "nm = takeWhile name_char s" "nm \<noteq> []"
    by (auto simp: match_name_gt_def Let_def split: if_splits)
  then show ?thesis by (auto dest: set_takeWhileD)
qed

lemma first_lts_gt_prefixed:
  assumes "nm \<noteq> []" "\<forall>c\<in>set nm. name_char c" "p = CHR ''<'' \<or> p = CHR ''/''"
  shows "first_lts_gt (p # nm @ ''>'') = Some ''>''"
proof -
  obtain c cs where nm: "nm = c # cs" using assms(1) by (cases nm) auto
  with assms(2) have c: "c \<noteq> CHR ''<''" "c \<noteq> CHR ''>''"
    using name_char_not_angle by auto
  have "match_lts_gt (p # nm @ ''>'') = None"
    using assms(3) c unfolding nm by (auto simp: match_lts_gt_def startswith_def)
  with first_lts_gt_names [OF assms(2)] show ?thesis by simp
qed

lemma tag_token_name:
  assumes "match_tag s = Some (tag, rest)"
  shows "first_lts_gt tag = Some ''>''"
proof (cases "startswith s ''</''")
  case True
  with assms obtain nm where m: "match_name_gt (drop 2 s) = Some (nm, rest)"
    and t: "tag = ''</'' @ nm @ ''>''"
    by (auto simp: match_tag_def split: option.splits)
  from match_name_gt_names [OF m] have n: "nm \<noteq> []" "\<forall>c\<in>set nm. name_char c" by auto
  have "match_lts_gt (CHR ''<'' # CHR ''/'' # nm @ ''>'') = None"
    by (simp add: match_lts_gt_def startswith_def)
  with first_lts_gt_prefixed [OF n, of "CHR ''/''"] show ?thesis
    unfolding t by simp
next
  case False
  with assms obtain nm where m: "match_name_gt (drop 1 s) = Some (nm, rest)"
    and t: "tag = ''<'' @ nm @ ''>''"
    by (auto simp: match_tag_def split: option.splits if_splits)
  from match_name_gt_names [OF m] have n: "nm \<noteq> []" "\<forall>c\<in>set nm. name_char c" by auto
  from first_lts_gt_prefixed [OF n, of "CHR ''<''"] show ?thesis
    unfolding t by simp
qed

lemma match_lts_gt_has_gt:
  assumes "match_lts_gt s = Some m"
  shows "CHR ''>'' \<in> set s"
proof -
  from assms have "take 1 (dropWhile (\<lambda>c. c = CHR ''<'') s) = ''>''"
    by (auto simp: match_lts_gt_def startswith_def split: if_splits)
  then have "CHR ''>'' \<in> set (dropWhile (\<lambda>c. c = CHR ''<'') s)"
    by (cases "dropWhile (\<lambda>c. c = CHR ''<'') s") auto
  then show ?thesis by (rule set_dropWhileD)
qed

lemma first_lts_gt_None_iff: "first_lts_gt s = None \<longleftrightarrow> CHR ''>'' \<notin> set s"
proof (induction s)
  case Nil
  show ?case by simp
next
  case (Cons c cs)
  show ?case
  proof (cases "match_lts_gt (c # cs)")
    case (Some m)
    from match_lts_gt_has_gt [OF Some] Some show ?thesis by simp
  next
    case None
    then have "c \<noteq> CHR ''>''"
      by (auto simp: match_lts_gt_def startswith_def split: if_splits)
    with None Cons.IH show ?thesis by simp
  qed
qed

lemma upper_name_char_not_gt: "name_char c \<Longrightarrow> upper_char c \<noteq> CHR ''>''"
  by (auto simp: name_char_def upper_char_def)

lemma match_close_names:
  assumes "match_close s = Some (nm, r)"
  shows "\<forall>c\<in>set nm. name_char c"
  using assms match_name_gt_names [of "drop 2 s" nm r]
  by (auto simp: match_close_def split: if_splits)

lemma findall_closing_names:
  "n \<in> set (findall_closing s) \<Longrightarrow> \<forall>c\<in>set n. name_char c"
proof (induction s rule: findall_closing.induct)
  case (1 s)
  show ?case
  proof (cases "match_close s")
    case None
    show ?thesis
    proof (cases s)
      case Nil
      with None "1.prems" show ?thesis
        by (simp add: findall_closing.simps [of "[]"])
    next
      case (Cons c cs)
      from "1.prems" None Cons have "n \<in> set (findall_closing cs)"
        by (simp add: findall_closing.simps [of "c # cs"])
      from "1.IH"(1) [OF None Cons this] show ?thesis .
    qed
  next
    case (Some p)
    obtain nm rest where p: "p = (nm, rest)" by (cases p)
    from Some p have m: "match_close s = Some (nm, rest)" by simp
    from "1.prems" m have "n = nm \<or> n \<in> set (findall_closing rest)"
      by (subst (asm) findall_closing.simps) auto
    then show ?thesis
    proof
      assume "n = nm"
      with match_close_names [OF m] show ?thesis by simp
    next
      assume "n \<in> set (findall_closing rest)"
      from "1.IH"(2) [OF m refl this] show ?thesis .
    qed
  qed
qed

lemma gt_not_known_closed: "upper ''>'' \<notin> set (map upper (findall_closing s))"
proof
  assume "upper ''>'' \<in> set (map upper (findall_closing s))"
  then obtain n where n: "n \<in> set (findall_closing s)" and u: "upper n = ''>''"
    by (auto simp: upper_def upper_char_def)
  from u obtain c where "n = [c]" "upper_char c = CHR ''>''"
    by (auto simp: upper_def)
  with findall_closing_names [OF n] upper_name_char_not_gt show False by auto
qed

text \<open>
  Hence every open tag token the splitting pattern matched becomes the pending tag, under
  the name \<open>>\<close>, whether or not its own name is in the known-closed set.
\<close>

lemma open_tag_always_pending:
  assumes "match_tag s0 = Some (tag, rest)" and "\<not> startswith tag ''</''"
  shows "\<exists>st'. process_token (map upper (findall_closing s)) st tag = Inr st'
            \<and> last_open_tag st' = Some ''>''"
proof -
  from assms obtain nm where m: "match_name_gt (drop 1 s0) = Some (nm, rest)"
    and t: "tag = ''<'' @ nm @ ''>''"
    by (auto simp: match_tag_def startswith_def split: option.splits if_splits)
  from match_name_gt_names [OF m] obtain c cs where nm: "nm = c # cs" and c: "name_char c"
    by (cases nm) auto
  from c have "c \<noteq> CHR ''!''" "c \<noteq> CHR ''?''"
    by (auto simp: name_char_def)
  then have flags: "startswith tag ''<''" "\<not> startswith tag ''<!''" "\<not> startswith tag ''<?''"
    by (simp_all add: t nm startswith_def)
  from tag_token_name [OF assms(1)] have f: "first_lts_gt tag = Some ''>''" .
  show ?thesis
    unfolding process_token_def Let_def
    using flags assms(2) f gt_not_known_closed [of s]
    by (auto split: option.splits)
qed

subsection \<open>When the preprocessor raises\<close>

lemma process_token_raises_iff:
  "isl (process_token cl st tok) \<longleftrightarrow> unanswered_open tok"
  unfolding process_token_def Let_def unanswered_open_def
  by (auto simp: first_lts_gt_None_iff [symmetric] split: option.splits)

lemma token_loop_raises_iff:
  "isl (token_loop cl st toks) \<longleftrightarrow> (\<exists>tok\<in>set toks. unanswered_open tok)"
proof (induction toks arbitrary: st)
  case Nil
  show ?case by simp
next
  case (Cons tok toks)
  show ?case
  proof (cases "process_token cl st tok")
    case (Inl e)
    with process_token_raises_iff [of cl st tok] show ?thesis by simp
  next
    case (Inr st')
    with process_token_raises_iff [of cl st tok] Cons.IH [of st'] show ?thesis by simp
  qed
qed

lemma repair_raises_iff:
  "isl (repair s) \<longleftrightarrow> (\<exists>tok\<in>set (re_split s). unanswered_open tok)"
  using token_loop_raises_iff [of "map upper (findall_closing s)"
      "\<lparr>last_open_tag = None, new_fh = []\<rparr>" "re_split s"]
  by (auto simp: repair_def repair_writes_def Let_def split: sum.splits)


lemma process_token_error: "process_token cl st tok = Inl e \<Longrightarrow> e = IndexError"
  by (auto simp: process_token_def Let_def split: if_splits option.splits)

lemma token_loop_error: "token_loop cl st toks = Inl e \<Longrightarrow> e = IndexError"
proof (induction toks arbitrary: st)
  case Nil
  then show ?case by simp
next
  case (Cons tok toks)
  then show ?case
    by (auto split: sum.splits dest: process_token_error)
qed

subsection \<open>The preprocessor at concrete streams\<close>

text \<open>
  Claim C1, at the streams \<^verbatim>\<open><a>x</a>\<close> and \<^verbatim>\<open><br>x<p>\<close>. In the first the name
  of the open tag \<^verbatim>\<open><a>\<close> is in the known-closed set, and the claim has no closer
  written; the preprocessor writes the closer \<^verbatim>\<open></>>\<close> before \<^verbatim>\<open></a>\<close>. In the second
  the name of \<^verbatim>\<open><br>\<close> is not in the (empty) known-closed set, and the claim has
  \<^verbatim>\<open></br>\<close> written before the next tag; the preprocessor writes \<^verbatim>\<open></>>\<close> there.
\<close>

theorem pending_name_is_not_the_tag_name:
  "findall_closing ''<a>x</a>'' = [''a'']
   \<and> repair_writes ''<a>x</a>'' =
       Inr [Token [], Token ''<a>'', Token ''x'', Closer ''</>>'', Token ''</a>'', Token []]
   \<and> findall_closing ''<br>x<p>'' = []
   \<and> repair_writes ''<br>x<p>'' =
       Inr [Token [], Token ''<br>'', Token ''x'', Closer ''</>>'', Token ''<p>'', Token []]"
  by code_simp

text \<open>
  Claim C2, at the stream \<^verbatim>\<open><a>x</a>\<close>: one application of the preprocessor gives
  \<^verbatim>\<open><a>x</>></a>\<close>, a second one gives \<^verbatim>\<open><a>x</>></>></a>\<close>, which is a different
  stream.
\<close>

theorem repair_twice_differs:
  "repair ''<a>x</a>'' = Inr ''<a>x</>></a>''
   \<and> repair ''<a>x</>></a>'' = Inr ''<a>x</>></>></a>''"
  by code_simp

text \<open>
  Claim C3, at the streams \<^verbatim>\<open><\<close> and \<^verbatim>\<open><p><2</p>\<close>: the preprocessor raises
  \<open>IndexError\<close> and produces no stream. In the second stream the token \<^verbatim>\<open><2\<close>
  between the two tags starts with \<open><\<close> and holds no \<open>>\<close>.
\<close>

theorem repair_raises_IndexError:
  "repair ''<'' = Inl IndexError
   \<and> re_split ''<p><2</p>'' = [[], ''<p>'', ''<2'', ''</p>'', []]
   \<and> XBRLPreprocessedFile (Some ''<p><2</p>'') = Inl IndexError"
  by code_simp

section \<open>Properties of the context resolver\<close>

lemma representable_difference:
  assumes "representable e" and "representable (e - d)"
  shows "timedelta_days_ok d \<and> timedelta_days_ok (d + 7)"
  using assms by (auto simp: representable_def timedelta_days_ok_def)

lemma find_ctx_id_duration:
  assumes "timedelta_days_ok (dur + 7)"
  shows "find_ctx_id (PDelta dur) (Datetime e 0) cat =
           Inr (map_option fst (List.find (spec_duration_qualifies dur e) cat))"
proof (induction cat)
  case Nil
  show ?case by simp
next
  case (Cons entry cat)
  obtain cid bounds where entry: "entry = (cid, bounds)" by (cases entry)
  show ?case
    using Cons.IH assms unfolding entry by (cases bounds) auto
qed

lemma duration_context:
  assumes "sel = Quarter \<and> d = 90 \<or> sel = Year \<and> d = 360 \<or> sel = DayCount d"
    and "timedelta_days_ok d"
  shows "to_context sel = Inr (PDelta d)"
  using assms by auto

text \<open>
  Claim C4, as stated, at two calls. With the empty catalog, the day count 737606 and
  the end date \<^verbatim>\<open>"20200630"\<close> (day 737606), no entry qualifies and the claim has
  \<^verbatim>\<open>Exception("no context id matched")\<close> raised; line 77 subtracts 737606 days from
  2020-06-30, which is no representable date, and raises \<open>OverflowError\<close>. With the
  catalog of the one entry \<^verbatim>\<open>C1\<close> from 2020-01-01 to 2020-03-31 (days 737425 and
  737515, a span of 90 days), the selector \<^verbatim>\<open>"quarter"\<close> and the end date given as
  the object \<^verbatim>\<open>datetime.date(2020, 3, 31)\<close>, the entry is a duration context with that
  end date and a span of 90 days and the claim has \<^verbatim>\<open>C1\<close> returned; the catalog's
  \<^verbatim>\<open>datetime\<close> does not equal the \<^verbatim>\<open>date\<close>, and
  \<^verbatim>\<open>Exception("no context id matched")\<close> is raised.
\<close>

theorem duration_selector_counterexample:
  "strptime_ymd ''20200630'' = Some 737606
   \<and> spec_resolve_duration [] 737606 737606 = Inl (Exception ''no context id matched'')
   \<and> get_GAAP_ctx_id sample_today strptime_ymd [] (DayCount 737606) (EndString ''20200630'')
       = Inl OverflowError
   \<and> spec_resolve_duration [(''C1'', Duration 737425 737515)] 90 737515 = Inr ''C1''
   \<and> get_GAAP_ctx_id sample_today strptime_ymd [(''C1'', Duration 737425 737515)] Quarter
         (EndValue (Date 737515))
       = Inl (Exception ''no context id matched'')"
  by code_simp

text \<open>
  Claim C4, amended. Let the end date be given as a string that
  \<^verbatim>\<open>strptime(_, "%Y%m%d")\<close> reads, or as a \<^verbatim>\<open>datetime\<close> at midnight, and let the
  selector be \<^verbatim>\<open>"quarter"\<close> (90 days), \<^verbatim>\<open>"year"\<close> (360 days) or an explicit day
  count \<open>d\<close>, such that the day \<open>d\<close> days before the end date is one that
  \<^verbatim>\<open>datetime\<close> can represent. Then the context id that \<^verbatim>\<open>get_GAAP\<close> settles on is
  the id of the first entry, in catalog order, that is a duration context whose end
  date equals the requested end date and whose span lies between the selector's
  duration and seven days more, both bounds included; when no entry qualifies it raises
  \<^verbatim>\<open>Exception("no context id matched")\<close>.
\<close>

theorem duration_selector_first_match:
  assumes "end_date_given = EndString s \<and> strptime s = Some e
           \<or> end_date_given = EndValue (Datetime e 0)"
    and "sel = Quarter \<and> d = 90 \<or> sel = Year \<and> d = 360 \<or> sel = DayCount d"
    and "representable e" and "representable (e - d)"
  shows "get_GAAP_ctx_id today strptime cat sel end_date_given = spec_resolve_duration cat d e"
proof -
  from assms(1) have end_date: "to_end_date today strptime end_date_given = Inr (Datetime e 0)"
    by auto
  from representable_difference [OF assms(3,4)]
  have ok: "timedelta_days_ok d" and ok7: "timedelta_days_ok (d + 7)" by simp_all
  from duration_context [OF assms(2) ok] have sel_ctx: "to_context sel = Inr (PDelta d)" .
  show ?thesis
    by (auto simp: get_GAAP_ctx_id_def end_date sel_ctx assms(4) find_ctx_id_duration [OF ok7]
        spec_resolve_duration_def split: option.splits)
qed

text \<open>
  The theorem at the specification's example: the catalog of the entry \<^verbatim>\<open>C1\<close> from
  2020-01-01 to 2020-03-31, the selector \<^verbatim>\<open>"quarter"\<close>, and the end dates
  \<^verbatim>\<open>"20200331"\<close> (day 737515), which gives \<^verbatim>\<open>C1\<close>, and \<^verbatim>\<open>"20200430"\<close> (day 737545),
  on which no context ends.
\<close>

theorem duration_selector_first_match_witness:
  "get_GAAP_ctx_id sample_today strptime_ymd [(''C1'', Duration 737425 737515)] Quarter
       (EndString ''20200331'') = Inr ''C1''
   \<and> get_GAAP_ctx_id sample_today strptime_ymd [(''C1'', Duration 737425 737515)] Quarter
       (EndString ''20200430'') = Inl (Exception ''no context id matched'')"
proof -
  have s1: "strptime_ymd ''20200331'' = Some 737515" by code_simp
  have s2: "strptime_ymd ''20200430'' = Some 737545" by code_simp
  have r: "representable 737515" "representable (737515 - 90)"
    "representable 737545" "representable (737545 - 90)"
    by (simp_all add: representable_def)
  from duration_selector_first_match
    [of "EndString ''20200331''" "''20200331''" strptime_ymd 737515 Quarter 90 sample_today
        "[(''C1'', Duration 737425 737515)]"] s1 r
  have 1: "get_GAAP_ctx_id sample_today strptime_ymd [(''C1'', Duration 737425 737515)] Quarter
       (EndString ''20200331'') = Inr ''C1''"
    by (simp add: spec_resolve_duration_def)
  from duration_selector_first_match
    [of "EndString ''20200430''" "''20200430''" strptime_ymd 737545 Quarter 90 sample_today
        "[(''C1'', Duration 737425 737515)]"] s2 r
  have 2: "get_GAAP_ctx_id sample_today strptime_ymd [(''C1'', Duration 737425 737515)] Quarter
       (EndString ''20200430'') = Inl (Exception ''no context id matched'')"
    by (simp add: spec_resolve_duration_def)
  from 1 2 show ?thesis by simp
qed

text \<open>
  Outside the amended claim. When the day \<open>d\<close> days before the end date cannot be
  represented, a day count raises \<open>OverflowError\<close> at line 77 (or at line 70, when the
  count itself is beyond the range of \<^verbatim>\<open>timedelta\<close>). When the end date is a
  \<^verbatim>\<open>date\<close> object, or is omitted and defaults to \<^verbatim>\<open>datetime.date.today()\<close>, no
  catalog entry equals it and no context id is ever returned.
\<close>

lemma day_count_overflow:
  assumes "to_end_date today strptime end_date_given = Inr (Datetime e us)"
    and "\<not> representable (e - d)"
  shows "get_GAAP_ctx_id today strptime cat (DayCount d) end_date_given = Inl OverflowError"
  using assms by (simp add: get_GAAP_ctx_id_def)

lemma find_ctx_id_date:
  "find_ctx_id sel_ctx (Date n) cat \<noteq> Inr (Some cid)"
proof (induction cat)
  case Nil
  show ?case by simp
next
  case (Cons entry cat)
  obtain c bounds where entry: "entry = (c, bounds)" by (cases entry)
  show ?case
    using Cons.IH unfolding entry
    by (cases bounds; cases sel_ctx) (auto split: if_splits)
qed

lemma date_end_date_never_matches:
  assumes "end_date_given = NoEndDate \<or> end_date_given = EndValue (Date n)"
  shows "get_GAAP_ctx_id today strptime cat sel end_date_given \<noteq> Inr cid"
proof -
  from assms obtain k where "to_end_date today strptime end_date_given = Inr (Date k)"
    by auto
  then show ?thesis
    using find_ctx_id_date [of _ k cat cid]
    by (auto simp: get_GAAP_ctx_id_def split: sum.splits option.splits)
qed

text \<open>
  The instant selector passes over instant entries of another date, and stops at the
  first entry that is either an instant of the requested date, which it returns, or a
  duration entry, on which it raises \<open>TypeError\<close>.
\<close>

lemma instant_passes_other_instants:
  assumes "\<forall>x\<in>set pre. \<exists>d. snd x = Instant d \<and> d \<noteq> e"
  shows "find_ctx_id PInstant (Datetime e 0) (pre @ rest)
           = find_ctx_id PInstant (Datetime e 0) rest"
  using assms
proof (induction pre)
  case Nil
  show ?case by simp
next
  case (Cons x pre)
  obtain cid b where x: "x = (cid, b)" by (cases x)
  from Cons.prems x obtain d where "b = Instant d" "d \<noteq> e" by auto
  with Cons x show ?case by simp
qed

lemma instant_stops_at_duration:
  assumes "to_end_date today strptime end_date_given = Inr (Datetime e 0)"
    and "\<forall>x\<in>set pre. \<exists>d. snd x = Instant d \<and> d \<noteq> e"
  shows "get_GAAP_ctx_id today strptime (pre @ (cid, Duration s f) # rest) InstantSel
           end_date_given = Inl TypeError"
  by (simp add: get_GAAP_ctx_id_def assms(1) instant_passes_other_instants [OF assms(2)])

lemma instant_returns_match:
  assumes "to_end_date today strptime end_date_given = Inr (Datetime e 0)"
    and "\<forall>x\<in>set pre. \<exists>d. snd x = Instant d \<and> d \<noteq> e"
  shows "get_GAAP_ctx_id today strptime (pre @ (cid, Instant e) # rest) InstantSel
           end_date_given = Inr cid"
  by (simp add: get_GAAP_ctx_id_def assms(1) instant_passes_other_instants [OF assms(2)])

text \<open>
  Claim C5, at the catalog with the duration entry \<^verbatim>\<open>D1\<close> (2020-01-01 to 2020-03-31)
  before the instant entry \<^verbatim>\<open>I1\<close> (2020-06-30, day 737606) and the end date
  \<^verbatim>\<open>"20200630"\<close>: the claim has the duration entry skipped and \<^verbatim>\<open>I1\<close> returned;
  \<^verbatim>\<open>get_GAAP\<close> raises \<open>TypeError\<close> at \<^verbatim>\<open>D1\<close>. On the catalog that holds \<^verbatim>\<open>I1\<close>
  alone it returns \<^verbatim>\<open>I1\<close>, as the specification's example says.
\<close>

theorem instant_selector_raises_at_duration_entry:
  "get_GAAP_ctx_id sample_today strptime_ymd
       [(''D1'', Duration 737425 737515), (''I1'', Instant 737606)]
       InstantSel (EndString ''20200630'') = Inl TypeError
   \<and> get_GAAP_ctx_id sample_today strptime_ymd [(''I1'', Instant 737606)]
       InstantSel (EndString ''20200630'') = Inr ''I1''"
  by code_simp

section \<open>Properties of the extraction engine\<close>

lemma strict_loop_aborts:
  assumes "\<exists>e\<in>set es. extraction_fails tf ti e"
  shows "element_loop tf ti 0 logger es data sink = Inl (XBRLException ''value extraction error'')"
  using assms
proof (induction es arbitrary: data)
  case Nil
  then show ?case by simp
next
  case (Cons e es)
  show ?case
  proof (cases "try_element tf ti e")
    case (Inl c)
    then show ?thesis by simp
  next
    case (Inr r)
    with Cons.prems have "\<exists>e\<in>set es. extraction_fails tf ti e"
      by (simp add: extraction_fails_def)
    from Cons.IH [OF this] Inr show ?thesis
      by (simp split: option.splits prod.splits)
  qed
qed

lemma permissive_loop_skips:
  assumes "ign \<noteq> 0" "ign \<noteq> 2"
  shows "element_loop tf ti ign logger es data sink
           = element_loop tf ti 0 logger' (filter (\<lambda>e. \<not> extraction_fails tf ti e) es) data sink"
proof (induction es arbitrary: data)
  case Nil
  show ?case by simp
next
  case (Cons e es)
  show ?case
    using assms Cons.IH
    by (cases "try_element tf ti e")
       (simp_all add: extraction_fails_def split: option.splits prod.splits)
qed

lemma clean_loop_returns:
  assumes "\<forall>e\<in>set es. \<not> extraction_fails tf ti e"
  shows "\<exists>data'. element_loop tf ti ign logger es data sink = Inr (data', sink)"
  using assms
proof (induction es arbitrary: data)
  case Nil
  show ?case by simp
next
  case (Cons e es)
  from Cons.prems obtain r where r: "try_element tf ti e = Inr r"
    by (cases "try_element tf ti e") (auto simp: extraction_fails_def)
  from Cons.prems have rest: "\<forall>e\<in>set es. \<not> extraction_fails tf ti e" by simp
  show ?case
  proof (cases r)
    case None
    with r Cons.IH [OF rest, of data] show ?thesis by simp
  next
    case (Some kv)
    obtain ctx v where "kv = (ctx, v)" by (cases kv)
    with Some r Cons.IH [OF rest, of "AList.update ctx v data"] show ?thesis by simp
  qed
qed

lemma lenient_loop_returns:
  assumes "ign \<noteq> 0" and "ign = 2 \<longrightarrow> logger"
  shows "\<exists>r. element_loop tf ti ign logger es data sink = Inr r"
proof (induction es arbitrary: data sink)
  case Nil
  show ?case by simp
next
  case (Cons e es)
  show ?case
    using assms Cons.IH
    by (cases "try_element tf ti e") (auto split: option.splits prod.splits)
qed

lemma contextful_path:
  assumes "opt_type opts \<noteq> ''String''" "\<not> no_context opts"
  shows "data_processing tf ti es ign logger opts =
           (case element_loop tf ti ign logger es [] [] of
              Inl e \<Rightarrow> Inl e
            | Inr (data, sink) \<Rightarrow> Inr (Data data, sink))"
  using assms by (simp add: data_processing_def)

lemma default_options_contextful:
  "opt_type default_options \<noteq> ''String''" "\<not> no_context default_options"
  by (simp_all add: default_options_def)


lemma dec_int_1000: "dec_int ''1000'' = Some 1000"
  by (simp add: dec_int_def dec_nat_def startswith_def)

lemma dec_int_0: "dec_int ''0'' = Some 0"
  by (simp add: dec_int_def dec_nat_def startswith_def)

lemma dec_float_1000: "dec_float ''1000'' = Some 1000"
  by (simp add: dec_float_def dec_nat_def startswith_def)

lemma dec_float_250: "dec_float ''250'' = Some 250"
  by (simp add: dec_float_def dec_nat_def startswith_def)

lemma dec_float_na: "dec_float ''n/a'' = None"
  by (simp add: dec_float_def dec_nat_def startswith_def)

lemma bad_node_fails: "extraction_fails dec_float dec_int bad_node"
  by (simp add: extraction_fails_def try_element_def bad_node_def)

lemma good_node_stored:
  "try_element dec_float dec_int good_node = Inr (Some (''c1'', PyInt 1000))"
  by (simp add: try_element_def good_node_def is_number_def dec_float_1000 dec_int_1000
      dec_int_0)

lemma no_decimals_node_raises:
  "try_element dec_float dec_int no_decimals_node = Inl (KeyError ''decimals'')"
  by (simp add: try_element_def no_decimals_node_def is_number_def dec_float_1000)

lemma two_decimals_node_stored:
  "try_element dec_float dec_int two_decimals_node = Inr (Some (''c1'', PyFloat 1000))"
  by (simp add: try_element_def two_decimals_node_def is_number_def dec_float_1000
      dec_int_def dec_nat_def startswith_def)

lemma na_node_raises:
  "try_element dec_float dec_int na_node = Inl (KeyError ''contextref'')"
  by (simp add: try_element_def na_node_def)

lemma na_ctx_node_skipped: "try_element dec_float dec_int na_ctx_node = Inr None"
  by (simp add: try_element_def na_ctx_node_def is_number_def dec_float_na)


subsection \<open>The decimals attribute\<close>

text \<open>
  On a numeric node that has both attributes, the sign of the \<^verbatim>\<open>decimals\<close> value
  selects the stored representation, and the value stored is what \<^verbatim>\<open>float()\<close> or
  \<^verbatim>\<open>int()\<close> reads from the text: nothing is scaled or rounded by the precision.
\<close>

lemma decimals_selects_representation:
  assumes "map_of (attrs e) ''contextref'' = Some ctx" and "tf (el_text e) = Some f"
    and "map_of (attrs e) ''decimals'' = Some d" and "ti d = Some p"
  shows "try_element tf ti e =
           (if p > 0 then Inr (Some (ctx, PyFloat f))
            else (case ti (el_text e) of
                    None \<Rightarrow> Inl (ValueError (el_text e))
                  | Some i \<Rightarrow> Inr (Some (ctx, PyInt i))))"
  using assms by (simp add: try_element_def is_number_def)

lemma absent_decimals_fails:
  assumes "map_of (attrs e) ''contextref'' = Some ctx" and "tf (el_text e) = Some f"
    and "map_of (attrs e) ''decimals'' = None"
  shows "try_element tf ti e = Inl (KeyError ''decimals'')"
  using assms by (simp add: try_element_def is_number_def)

text \<open>
  Claim C7, at the node with \<^verbatim>\<open>contextref="c1"\<close>, the text \<^verbatim>\<open>1000\<close> and no
  \<^verbatim>\<open>decimals\<close> attribute: the claim has the attribute treated as 0 and the integer
  1000 stored. The read \<^verbatim>\<open>attrs['decimals']\<close> raises \<open>KeyError\<close>: permissive
  extraction stores nothing for the node and strict extraction raises. With
  \<^verbatim>\<open>decimals="2"\<close> the same text is stored as a float, with \<^verbatim>\<open>decimals="0"\<close> as
  the integer 1000, as the claim says.
\<close>

theorem absent_decimals_is_not_zero:
  "try_element dec_float dec_int no_decimals_node = Inl (KeyError ''decimals'')
   \<and> data_processing dec_float dec_int [no_decimals_node] 1 False default_options
       = Inr (Data [], [])
   \<and> data_processing dec_float dec_int [no_decimals_node] 0 False default_options
       = Inl (XBRLException ''value extraction error'')
   \<and> data_processing dec_float dec_int [two_decimals_node] 0 False default_options
       = Inr (Data [(''c1'', PyFloat 1000)], [])
   \<and> data_processing dec_float dec_int [good_node] 0 False default_options
       = Inr (Data [(''c1'', PyInt 1000)], [])"
  by (simp add: contextful_path [OF default_options_contextful] no_decimals_node_raises
      two_decimals_node_stored good_node_stored)

subsection \<open>The contextless numeric path\<close>

lemma default_strict:
  "data_processing tf ti es 0 logger default_options =
     (if \<exists>e\<in>set es. extraction_fails tf ti e
      then Inl (XBRLException ''value extraction error'')
      else data_processing tf ti es 0 logger default_options)
   \<and> ((\<forall>e\<in>set es. \<not> extraction_fails tf ti e)
        \<longrightarrow> (\<exists>data. data_processing tf ti es 0 logger default_options = Inr (Data data, [])))"
proof (intro conjI impI)
  show "data_processing tf ti es 0 logger default_options =
     (if \<exists>e\<in>set es. extraction_fails tf ti e
      then Inl (XBRLException ''value extraction error'')
      else data_processing tf ti es 0 logger default_options)"
    by (simp add: contextful_path [OF default_options_contextful] strict_loop_aborts)
next
  assume "\<forall>e\<in>set es. \<not> extraction_fails tf ti e"
  from clean_loop_returns [OF this, of 0 logger "[]" "[]"]
  show "\<exists>data. data_processing tf ti es 0 logger default_options = Inr (Data data, [])"
    by (auto simp: contextful_path [OF default_options_contextful])
qed

lemma default_lenient:
  assumes "ign \<noteq> 0" and "ign = 2 \<longrightarrow> logger"
  shows "\<exists>data sink. data_processing tf ti es ign logger default_options = Inr (Data data, sink)"
proof -
  from lenient_loop_returns [OF assms, of tf ti es "[]" "[]"] obtain r where
    "element_loop tf ti ign logger es [] [] = Inr r" by blast
  then show ?thesis
    by (cases r) (simp add: contextful_path [OF default_options_contextful])
qed

text \<open>
  Claim C8, as stated, at the batch of one node with the text \<^verbatim>\<open>n/a\<close> and no
  \<^verbatim>\<open>contextref\<close>, under strict policy: the contextless numeric call raises
  \<^verbatim>\<open>XBRLException('value extraction error')\<close>, where the claim has it return nothing
  without raising. At the batch of a non-numeric node followed by a well-formed numeric
  node, under permissive policy, it returns the second node's value in a mapping.
\<close>

theorem contextless_number_counterexample:
  "data_processing dec_float dec_int [na_node] 0 False contextless_number
      = Inl (XBRLException ''value extraction error'')
   \<and> data_processing dec_float dec_int [na_ctx_node, good_node] 1 False contextless_number
      = Inr (Data [(''c1'', PyInt 1000)], [])"
  by (simp add: data_processing_def contextless_number_def na_node_def na_ctx_node_def
      is_number_def dec_float_na na_node_raises [unfolded na_node_def]
      na_ctx_node_skipped [unfolded na_ctx_node_def] good_node_stored)

text \<open>
  Claim C8, amended. With \<^verbatim>\<open>no_context\<close> true and a type other than \<^verbatim>\<open>'String'\<close>:
  when the batch is not empty and the first node's text parses as a number, the call
  returns that text and writes nothing to the sink, under every error policy; otherwise
  it returns what the contextful numeric path returns on the same batch, which under
  strict policy is \<^verbatim>\<open>XBRLException('value extraction error')\<close> when a node fails
  extraction and under permissive policy is a mapping.
\<close>

theorem contextless_number_falls_through:
  assumes "opt_type opts \<noteq> ''String''" and "no_context opts"
  shows "(elements \<noteq> [] \<and> is_number tf (el_text (hd elements))
            \<longrightarrow> data_processing tf ti elements ign logger opts
                  = Inr (Text (el_text (hd elements)), []))
       \<and> (\<not> (elements \<noteq> [] \<and> is_number tf (el_text (hd elements)))
            \<longrightarrow> data_processing tf ti elements ign logger opts
                  = data_processing tf ti elements ign logger default_options
                \<and> ((\<exists>e\<in>set elements. extraction_fails tf ti e)
                     \<longrightarrow> data_processing tf ti elements 0 logger opts
                           = Inl (XBRLException ''value extraction error''))
                \<and> (ign \<noteq> 0 \<and> ign \<noteq> 2
                     \<longrightarrow> (\<exists>data. data_processing tf ti elements ign logger opts
                                  = Inr (Data data, []))))"
proof (intro conjI impI)
  assume "elements \<noteq> [] \<and> is_number tf (el_text (hd elements))"
  with assms show "data_processing tf ti elements ign logger opts
      = Inr (Text (el_text (hd elements)), [])"
    by (simp add: data_processing_def)
next
  assume n: "\<not> (elements \<noteq> [] \<and> is_number tf (el_text (hd elements)))"
  with assms have through: "\<And>i. data_processing tf ti elements i logger opts
      = data_processing tf ti elements i logger default_options"
    by (auto simp: data_processing_def default_options_def)
  show "data_processing tf ti elements ign logger opts
      = data_processing tf ti elements ign logger default_options"
    by (rule through)
  {
    assume "\<exists>e\<in>set elements. extraction_fails tf ti e"
    then show "data_processing tf ti elements 0 logger opts
        = Inl (XBRLException ''value extraction error'')"
      unfolding through
      by (simp add: contextful_path [OF default_options_contextful] strict_loop_aborts)
  }
  {
    assume ign: "ign \<noteq> 0 \<and> ign \<noteq> 2"
    let ?kept = "filter (\<lambda>e. \<not> extraction_fails tf ti e) elements"
    have "\<forall>e\<in>set ?kept. \<not> extraction_fails tf ti e" by simp
    from clean_loop_returns [OF this, of 0 logger "[]" "[]"] obtain data where
      k: "element_loop tf ti 0 logger ?kept [] [] = Inr (data, [])" by blast
    from ign have "element_loop tf ti ign logger elements [] [] = Inr (data, [])"
      using permissive_loop_skips [of ign tf ti logger elements "[]" "[]" logger] k by simp
    then show "\<exists>data. data_processing tf ti elements ign logger opts = Inr (Data data, [])"
      unfolding through
      by (simp add: contextful_path [OF default_options_contextful])
  }
qed

text \<open>
  The theorem at the batch of one well-formed numeric node under strict policy (the text
  is returned) and at the batch of one node with the text \<^verbatim>\<open>n/a\<close> and no
  \<^verbatim>\<open>contextref\<close> (strict: the error; permissive: the empty mapping).
\<close>

theorem contextless_number_falls_through_witness:
  "data_processing dec_float dec_int [good_node] 0 False contextless_number
      = Inr (Text ''1000'', [])
   \<and> data_processing dec_float dec_int [na_node] 0 False contextless_number
      = Inl (XBRLException ''value extraction error'')
   \<and> data_processing dec_float dec_int [na_node] 1 False contextless_number
      = Inr (Data [], [])"
proof -
  have o: "opt_type contextless_number \<noteq> ''String''" "no_context contextless_number"
    by (simp_all add: contextless_number_def)
  have g: "is_number dec_float (el_text (hd [good_node]))"
    by (simp add: is_number_def good_node_def dec_float_1000)
  have n: "\<not> is_number dec_float (el_text (hd [na_node]))"
    by (simp add: is_number_def na_node_def dec_float_na)
  note t = na_node_raises
  from t have f: "extraction_fails dec_float dec_int na_node"
    by (simp add: extraction_fails_def)
  have d: "data_processing dec_float dec_int [na_node] 1 False default_options
      = Inr (Data [], [])"
    by (simp add: contextful_path [OF default_options_contextful] t)
  from contextless_number_falls_through [OF o, of "[good_node]" dec_float dec_int 0 False] g
  have 1: "data_processing dec_float dec_int [good_node] 0 False contextless_number
      = Inr (Text ''1000'', [])"
    by (simp add: good_node_def)
  from contextless_number_falls_through [OF o, of "[na_node]" dec_float dec_int 1 False] n f d
  have 2: "data_processing dec_float dec_int [na_node] 0 False contextless_number
      = Inl (XBRLException ''value extraction error'')"
    and 3: "data_processing dec_float dec_int [na_node] 1 False contextless_number
      = Inr (Data [], [])"
    by simp_all
  from 1 2 3 show ?thesis by simp
qed

section \<open>Properties of GAAP parsing\<close>

lemma parse_GAAP_no_non_current:
  assumes "xbrl ''(us-gaap:)[^s]*(assetsnoncurrent)'' = []"
  shows "parse_GAAP tf ti xbrl ign logger =
     (case data_processing tf ti (xbrl ''us-gaap:assets'') ign logger default_options of
        Inl e \<Rightarrow> Inl e
      | Inr a \<Rightarrow>
          (case data_processing tf ti (xbrl ''us-gaap:assetscurrent'') ign logger
                  default_options of
             Inl e \<Rightarrow> Inl e
           | Inr c \<Rightarrow> Inl TypeError))"
  using assms by (simp add: parse_GAAP_def split: sum.splits prod.splits)

text \<open>
  Claim C10, as stated, at the document whose only GAAP tag is an \<^verbatim>\<open>us-gaap:assets\<close>
  node without \<^verbatim>\<open>contextref\<close>, under strict policy: no tag matches the
  non-current-assets pattern, and \<^verbatim>\<open>parse_GAAP\<close> raises
  \<^verbatim>\<open>XBRLException('value extraction error')\<close> at line 249, not \<open>TypeError\<close>.
\<close>

theorem parse_GAAP_counterexample:
  "bad_assets_doc ''(us-gaap:)[^s]*(assetsnoncurrent)'' = []
   \<and> parse_GAAP dec_float dec_int bad_assets_doc 0 False
       = Inl (XBRLException ''value extraction error'')"
proof -
  have n: "bad_assets_doc ''(us-gaap:)[^s]*(assetsnoncurrent)'' = []"
    by (simp add: bad_assets_doc_def)
  have a: "bad_assets_doc ''us-gaap:assets'' = [bad_node]"
    by (simp add: bad_assets_doc_def)
  have "\<exists>e\<in>set [bad_node]. extraction_fails dec_float dec_int e"
    using bad_node_fails by simp
  from strict_loop_aborts [OF this]
  have "data_processing dec_float dec_int [bad_node] 0 False default_options
      = Inl (XBRLException ''value extraction error'')"
    by (simp only: contextful_path [OF default_options_contextful] sum.case)
  with n a show ?thesis
    by (simp add: parse_GAAP_no_non_current [of bad_assets_doc, OF n])
qed

text \<open>
  Claim C10, amended. For every parsed document in which the non-current-assets query
  returns the empty list, \<^verbatim>\<open>parse_GAAP\<close> produces no result. It raises \<open>TypeError\<close>
  at the subtraction of line 260 whenever the extraction of the assets batch and of the
  current-assets batch returns: always under a policy other than strict (with a logger
  where the policy is logging), and under strict policy when no node of the two batches
  fails extraction. Under strict policy a failing node in either batch raises
  \<^verbatim>\<open>XBRLException('value extraction error')\<close> before the subtraction is reached.
\<close>

theorem parse_GAAP_without_non_current_assets:
  assumes "xbrl ''(us-gaap:)[^s]*(assetsnoncurrent)'' = []"
  shows "isl (parse_GAAP tf ti xbrl ign logger)
       \<and> (ign \<noteq> 0 \<and> (ign = 2 \<longrightarrow> logger)
            \<longrightarrow> parse_GAAP tf ti xbrl ign logger = Inl TypeError)
       \<and> ((\<forall>e\<in>set (xbrl ''us-gaap:assets'' @ xbrl ''us-gaap:assetscurrent'').
               \<not> extraction_fails tf ti e)
            \<longrightarrow> parse_GAAP tf ti xbrl 0 logger = Inl TypeError)
       \<and> ((\<exists>e\<in>set (xbrl ''us-gaap:assets'' @ xbrl ''us-gaap:assetscurrent'').
               extraction_fails tf ti e)
            \<longrightarrow> parse_GAAP tf ti xbrl 0 logger
                  = Inl (XBRLException ''value extraction error''))"
proof (intro conjI impI)
  show "isl (parse_GAAP tf ti xbrl ign logger)"
    by (simp add: parse_GAAP_no_non_current [of xbrl, OF assms] split: sum.splits)
next
  assume l: "ign \<noteq> 0 \<and> (ign = 2 \<longrightarrow> logger)"
  then have l1: "ign \<noteq> 0" and l2: "ign = 2 \<longrightarrow> logger" by simp_all
  from default_lenient [OF l1 l2, of tf ti "xbrl ''us-gaap:assets''"]
    default_lenient [OF l1 l2, of tf ti "xbrl ''us-gaap:assetscurrent''"]
  show "parse_GAAP tf ti xbrl ign logger = Inl TypeError"
    by (auto simp: parse_GAAP_no_non_current [of xbrl, OF assms])
next
  assume "\<forall>e\<in>set (xbrl ''us-gaap:assets'' @ xbrl ''us-gaap:assetscurrent'').
             \<not> extraction_fails tf ti e"
  then have a: "\<forall>e\<in>set (xbrl ''us-gaap:assets''). \<not> extraction_fails tf ti e"
    and c: "\<forall>e\<in>set (xbrl ''us-gaap:assetscurrent''). \<not> extraction_fails tf ti e"
    by auto
  from default_strict [of tf ti "xbrl ''us-gaap:assets''" logger] a
    default_strict [of tf ti "xbrl ''us-gaap:assetscurrent''" logger] c
  show "parse_GAAP tf ti xbrl 0 logger = Inl TypeError"
    by (auto simp: parse_GAAP_no_non_current [of xbrl, OF assms])
next
  assume f: "\<exists>e\<in>set (xbrl ''us-gaap:assets'' @ xbrl ''us-gaap:assetscurrent'').
             extraction_fails tf ti e"
  show "parse_GAAP tf ti xbrl 0 logger = Inl (XBRLException ''value extraction error'')"
  proof (cases "\<exists>e\<in>set (xbrl ''us-gaap:assets''). extraction_fails tf ti e")
    case True
    then have "data_processing tf ti (xbrl ''us-gaap:assets'') 0 logger default_options
        = Inl (XBRLException ''value extraction error'')"
      by (simp add: contextful_path [OF default_options_contextful] strict_loop_aborts)
    then show ?thesis
      by (simp add: parse_GAAP_no_non_current [of xbrl, OF assms])
  next
    case False
    with f have c: "\<exists>e\<in>set (xbrl ''us-gaap:assetscurrent''). extraction_fails tf ti e"
      by auto
    from False default_strict [of tf ti "xbrl ''us-gaap:assets''" logger] obtain data where
      a: "data_processing tf ti (xbrl ''us-gaap:assets'') 0 logger default_options
            = Inr (Data data, [])"
      by auto
    from c have "data_processing tf ti (xbrl ''us-gaap:assetscurrent'') 0 logger
        default_options = Inl (XBRLException ''value extraction error'')"
      by (simp add: contextful_path [OF default_options_contextful] strict_loop_aborts)
    with a show ?thesis
      by (simp add: parse_GAAP_no_non_current [of xbrl, OF assms])
  qed
qed

text \<open>
  The theorem at the document with no GAAP tag at all: under permissive and under
  strict policy \<^verbatim>\<open>parse_GAAP\<close> raises \<open>TypeError\<close>.
\<close>

theorem parse_GAAP_without_non_current_assets_witness:
  "empty_doc ''(us-gaap:)[^s]*(assetsnoncurrent)'' = []
   \<and> parse_GAAP dec_float dec_int empty_doc 1 False = Inl TypeError
   \<and> parse_GAAP dec_float dec_int empty_doc 0 False = Inl TypeError"
proof -
  have n: "empty_doc ''(us-gaap:)[^s]*(assetsnoncurrent)'' = []"
    by (simp add: empty_doc_def)
  from parse_GAAP_without_non_current_assets [of empty_doc, OF n, of dec_float dec_int 1 False] n
  show ?thesis by (simp add: empty_doc_def)
qed

end
